theory Spec2Isabelle
  imports Main
begin

section \<open>The data the adapter reads and forwards\<close>

text \<open>
  The repository is one module with two functions, \<open>useVList\<close> and \<open>useVListEvent\<close>.
  It exists in two revisions: \<open>src/index.ts\<close> and the unnamed file \<open>part_002\<close>. The two
  are the same statement for statement, apart from the block that attaches the
  section-grouping extension; the revision is therefore a parameter of the model, read
  only in that block.
\<close>

datatype revision = SrcIndex | Part002

text \<open>
  Handles of the host and the engine. A DOM element, an object reference, an item of the
  list and a callback that the adapter only forwards are opaque to the adapter, and are
  numbers here. An options object that the adapter passes through without looking inside
  is a property list; the object literal \<open>{}\<close> is the empty list.
\<close>

type_synonym element = nat
type_synonym addr = nat
type_synonym item = nat
type_synonym fn_id = nat
type_synonym payload = nat
type_synonym js_object = "(string \<times> int) list"

text \<open>The error a JavaScript member access on \<open>null\<close> or \<open>undefined\<close> raises.\<close>

datatype error = TypeError

text \<open>
  Modelled from the spec: the configuration type \<open>VListConfig\<close> and the types of its
  fields, which the source imports from the engine and which are not under \<open>src/\<close>.
  The fields below are the ones the adapter reads (section 3 of the specification: item
  height and template, item collection, layout mode, grouping rules, selection mode,
  scroll and scrollbar options, async data adapter, loading indicator); a field that may
  be left out is an \<open>option\<close>, with \<open>None\<close> for \<open>undefined\<close>.
  A selection mode is \<open>"none"\<close> or one of the engine's two other mode names. A scrollbar
  setting is a string (\<open>"none"\<close> is the one the adapter tests for) or an options object.
  A header height is a number or a function of a group key and a group index.
\<close>

datatype scroll_element = Window | Element element

datatype selection_mode = ModeNone | ModeSingle | ModeMultiple

datatype scrollbar_setting = SbString string | SbObject js_object

datatype header_height = HeightNumber int | HeightFunction "string \<Rightarrow> int \<Rightarrow> int"

record scroll_config =
  element :: "scroll_element option"
  scrollbar_override :: "scrollbar_setting option"

record selection_config =
  mode :: "selection_mode option"
  initial :: "item list"

record groups_config =
  getGroupForIndex :: fn_id
  headerHeight :: header_height
  headerTemplate :: fn_id
  sticky :: "bool option"

record vlist_config =
  container :: "element option"
  item_config :: js_object
  items :: "item list option"
  scroll :: "scroll_config option"
  adapter :: "js_object option"
  loading :: "js_object option"
  layout :: "string option"
  grid :: "js_object option"
  groups :: "groups_config option"
  selection :: "selection_config option"
  scrollbar :: "scrollbar_setting option"

text \<open>
  What the extension constructors of the engine are called with. \<open>withSections\<close> receives
  the grouping configuration itself in \<open>src/index.ts\<close> and a new options object in
  \<open>part_002\<close>; \<open>withSelection\<close> receives \<open>config.selection\<close> or the literal
  \<open>{ mode: "none" }\<close>. In \<open>SectionsOptions\<close> the arguments are \<open>getGroupForIndex\<close>,
  \<open>headerHeight\<close>, \<open>headerTemplate\<close> and \<open>sticky\<close>, the last one \<open>None\<close> when the
  field is not in the object; in \<open>WithAsync\<close> they are \<open>adapter\<close> and \<open>loading\<close>,
  likewise.
\<close>

datatype sections_arg =
    GroupsObject groups_config
  | SectionsOptions fn_id int fn_id "bool option"

datatype selection_arg =
    SelectionObject "selection_config option"
  | ModeNoneLiteral

datatype extension =
    WithPage
  | WithAsync js_object "js_object option"
  | WithGrid js_object
  | WithSections sections_arg
  | WithSelection selection_arg
  | WithScale
  | WithScrollbar js_object
  | WithSnapshots

text \<open>
  The engine is a black box. Its builder is the configuration object it was created with
  and the extensions applied so far, in the order of the \<open>use\<close> calls; an instance is a
  finalized builder with an identity of its own.
\<close>

record builder =
  seed :: addr
  plugins :: "extension list"

record vlist_instance =
  vid :: nat
  built_from :: builder

text \<open>
  The calls on engine instances and on callbacks of the caller, in the order in which they
  happen.
\<close>

datatype effect =
    HeaderHeightCall string int
  | Build vlist_instance
  | Destroy nat
  | SetItems nat "item list"
  | On nat string nat
  | Unsub nat string nat
  | HandlerCall fn_id payload

text \<open>
  \<open>configInput\<close> is a plain configuration object or a reactive cell that holds one.
\<close>

datatype config_input = Plain addr | Reactive addr

text \<open>
  The callbacks the two functions hand to the host framework, as closures over what they
  capture: the hooks for the mount and the unmount signal, and the reactions of the two
  \<open>watch\<close> calls. The watch of \<open>useVListEvent\<close> is known by its event and its handler
  cell; with them the framework keeps the value the watch saw last, an instance by its
  identity or \<open>None\<close> for \<open>null\<close>.
\<close>

datatype hook =
    MountedHook revision config_input
  | DestroyHook
  | UnsubHook nat string nat

datatype watcher =
    ItemsWatcher config_input
  | InstanceWatcher string nat "nat option"

text \<open>
  The state of one host component: the heap of configuration objects, the two references
  \<open>useVList\<close> returns, the handler cells of \<open>useVListEvent\<close>, what is registered with the
  framework, and the log of calls.
\<close>

record vstate =
  heap :: "addr \<Rightarrow> vlist_config"
  next_addr :: addr
  next_vid :: nat
  containerRef :: "element option"
  instanceRef :: "vlist_instance option"
  handler_cells :: "nat \<Rightarrow> fn_id"
  next_cell :: nat
  mounted_hooks :: "hook list"
  unmount_hooks :: "hook list"
  watchers :: "watcher list"
  effects :: "effect list"

section \<open>The engine's entry points\<close>

text \<open>
  \<open>{ ...config, container }\<close> is a new object: it is allocated at a fresh address and the
  object it was copied from stays where it is.
\<close>

definition new_object :: "vlist_config \<Rightarrow> vstate \<Rightarrow> addr \<times> vstate" where
  "new_object obj st =
     (next_addr st,
      st\<lparr>heap := (heap st)(next_addr st := obj), next_addr := Suc (next_addr st)\<rparr>)"

definition vlist :: "addr \<Rightarrow> builder" where
  "vlist a = \<lparr>seed = a, plugins = []\<rparr>"

definition use :: "extension \<Rightarrow> builder \<Rightarrow> builder" where
  "use ext b = b\<lparr>plugins := plugins b @ [ext]\<rparr>"

definition build :: "builder \<Rightarrow> vstate \<Rightarrow> vlist_instance \<times> vstate" where
  "build b st =
     (let inst = \<lparr>vid = next_vid st, built_from = b\<rparr>
      in (inst, st\<lparr>next_vid := Suc (next_vid st), effects := effects st @ [Build inst]\<rparr>))"

definition destroy :: "vlist_instance \<Rightarrow> vstate \<Rightarrow> vstate" where
  "destroy inst st = st\<lparr>effects := effects st @ [Destroy (vid inst)]\<rparr>"

definition setItems :: "vlist_instance \<Rightarrow> item list \<Rightarrow> vstate \<Rightarrow> vstate" where
  "setItems inst xs st = st\<lparr>effects := effects st @ [SetItems (vid inst) xs]\<rparr>"

section \<open>useVList\<close>

definition unref :: "config_input \<Rightarrow> addr" where
  "unref configInput = (case configInput of Plain a \<Rightarrow> a | Reactive a \<Rightarrow> a)"

definition isRef :: "config_input \<Rightarrow> bool" where
  "isRef configInput = (case configInput of Plain a \<Rightarrow> False | Reactive a \<Rightarrow> True)"

text \<open>\<open>config.scroll?.element\<close> and \<open>config.scroll?.scrollbar\<close>.\<close>

definition scroll_element_of :: "vlist_config \<Rightarrow> scroll_element option" where
  "scroll_element_of config = (case scroll config of None \<Rightarrow> None | Some s \<Rightarrow> element s)"

definition scroll_scrollbar_of :: "vlist_config \<Rightarrow> scrollbar_setting option" where
  "scroll_scrollbar_of config =
     (case scroll config of None \<Rightarrow> None | Some s \<Rightarrow> scrollbar_override s)"

text \<open>
  The operator \<open>||\<close> on two optional scrollbar settings: the left one when it is truthy,
  that is, present and not the empty string.
\<close>

definition truthy :: "scrollbar_setting option \<Rightarrow> bool" where
  "truthy v = (case v of None \<Rightarrow> False | Some (SbString s) \<Rightarrow> s \<noteq> [] | Some (SbObject ob) \<Rightarrow> True)"

definition js_or :: "scrollbar_setting option \<Rightarrow> scrollbar_setting option \<Rightarrow> scrollbar_setting option" where
  "js_or a b = (if truthy a then a else b)"

definition page_step :: "vlist_config \<Rightarrow> builder \<Rightarrow> builder" where
  "page_step config b =
     (if scroll_element_of config = Some Window then use WithPage b else b)"

definition async_step :: "vlist_config \<Rightarrow> builder \<Rightarrow> builder" where
  "async_step config b =
     (case adapter config of
        Some a \<Rightarrow> use (WithAsync a (loading config)) b
      | None \<Rightarrow> b)"

definition grid_step :: "vlist_config \<Rightarrow> builder \<Rightarrow> builder" where
  "grid_step config b =
     (if layout config = Some ''grid''
      then (case grid config of Some g \<Rightarrow> use (WithGrid g) b | None \<Rightarrow> b)
      else b)"

text \<open>
  The one block in which the revisions differ. \<open>src/index.ts\<close> passes \<open>config.groups\<close>
  on. \<open>part_002\<close> calls a header height that is a function with \<open>("", 0)\<close> and passes the
  number on, in a new object that has the \<open>sticky\<close> field only when it is defined.
\<close>

definition sections_step :: "revision \<Rightarrow> vlist_config \<Rightarrow> builder \<times> vstate \<Rightarrow> builder \<times> vstate" where
  "sections_step rv config bs =
     (case bs of (b, st) \<Rightarrow>
      (case groups config of
         None \<Rightarrow> (b, st)
       | Some groupsConfig \<Rightarrow>
          (case rv of
             SrcIndex \<Rightarrow> (use (WithSections (GroupsObject groupsConfig)) b, st)
           | Part002 \<Rightarrow>
              (case headerHeight groupsConfig of
                 HeightFunction f \<Rightarrow>
                   (use (WithSections (SectionsOptions (getGroupForIndex groupsConfig)
                           (f [] 0) (headerTemplate groupsConfig) (sticky groupsConfig))) b,
                    st\<lparr>effects := effects st @ [HeaderHeightCall [] 0]\<rparr>)
               | HeightNumber n \<Rightarrow>
                   (use (WithSections (SectionsOptions (getGroupForIndex groupsConfig)
                           n (headerTemplate groupsConfig) (sticky groupsConfig))) b,
                    st)))))"

text \<open>\<open>config.selection?.mode || "none"\<close>: every mode name is a non-empty string.\<close>

definition selectionMode :: "vlist_config \<Rightarrow> selection_mode" where
  "selectionMode config =
     (case selection config of
        None \<Rightarrow> ModeNone
      | Some s \<Rightarrow> (case mode s of None \<Rightarrow> ModeNone | Some m \<Rightarrow> m))"

definition selection_step :: "vlist_config \<Rightarrow> builder \<Rightarrow> builder" where
  "selection_step config b =
     (if selectionMode config \<noteq> ModeNone
      then use (WithSelection (SelectionObject (selection config))) b
      else use (WithSelection ModeNoneLiteral) b)"

definition scrollbarConfig :: "vlist_config \<Rightarrow> scrollbar_setting option" where
  "scrollbarConfig config = js_or (scroll_scrollbar_of config) (scrollbar config)"

definition scrollbarOptions :: "scrollbar_setting option \<Rightarrow> js_object" where
  "scrollbarOptions v = (case v of Some (SbObject ob) \<Rightarrow> ob | _ \<Rightarrow> [])"

definition scrollbar_step :: "vlist_config \<Rightarrow> builder \<Rightarrow> builder" where
  "scrollbar_step config b =
     (if scrollbarConfig config \<noteq> Some (SbString ''none'')
      then use (WithScrollbar (scrollbarOptions (scrollbarConfig config))) b
      else b)"

text \<open>The callback given to \<open>onMounted\<close>.\<close>

definition onMounted :: "revision \<Rightarrow> config_input \<Rightarrow> vstate \<Rightarrow> error + vstate" where
  "onMounted rv configInput st =
     (case containerRef st of
        None \<Rightarrow> Inr st
      | Some c \<Rightarrow>
         (let config = heap st (unref configInput);
              (a, st1) = new_object (config\<lparr>container := Some c\<rparr>) st;
              b = vlist a;
              b = page_step config b;
              b = async_step config b;
              b = grid_step config b;
              (b, st2) = sections_step rv config (b, st1);
              b = selection_step config b;
              b = use WithScale b;
              b = scrollbar_step config b;
              b = use WithSnapshots b;
              (inst, st3) = build b st2
          in Inr (st3\<lparr>instanceRef := Some inst\<rparr>)))"

text \<open>
  A method call on a reference that may be \<open>null\<close>. The plain call \<open>x.m()\<close> raises a
  \<open>TypeError\<close> on \<open>null\<close>; the optional call \<open>x?.m()\<close> does nothing there.
\<close>

definition member_call ::
  "vlist_instance option \<Rightarrow> (vlist_instance \<Rightarrow> vstate \<Rightarrow> vstate) \<Rightarrow> vstate \<Rightarrow> error + vstate" where
  "member_call target m st =
     (case target of None \<Rightarrow> Inl TypeError | Some inst \<Rightarrow> Inr (m inst st))"

definition optional_call ::
  "vlist_instance option \<Rightarrow> (vlist_instance \<Rightarrow> vstate \<Rightarrow> vstate) \<Rightarrow> vstate \<Rightarrow> error + vstate" where
  "optional_call target m st =
     (case target of None \<Rightarrow> Inr st | Some inst \<Rightarrow> Inr (m inst st))"

text \<open>
  The callback given to \<open>onBeforeUnmount\<close>: \<open>instance.value?.destroy()\<close>, then
  \<open>instance.value = null\<close>.
\<close>

definition onBeforeUnmount :: "vstate \<Rightarrow> error + vstate" where
  "onBeforeUnmount st =
     (case optional_call (instanceRef st) destroy st of
        Inl e \<Rightarrow> Inl e
      | Inr st1 \<Rightarrow> Inr (st1\<lparr>instanceRef := None\<rparr>))"

text \<open>
  The reaction of the watch on \<open>configInput.value.items\<close>. The guard is
  \<open>instance.value && newItems\<close>; an array is truthy whatever its length, so the guard
  asks only that \<open>newItems\<close> is defined.
\<close>

definition items_watch_cb :: "item list option \<Rightarrow> vstate \<Rightarrow> error + vstate" where
  "items_watch_cb newItems st =
     (case newItems of
        None \<Rightarrow> Inr st
      | Some xs \<Rightarrow>
         (if instanceRef st \<noteq> None
          then member_call (instanceRef st) (\<lambda>inst. setItems inst xs) st
          else Inr st))"

text \<open>
  The body of \<open>useVList\<close>, run once when the host component is set up: two new references,
  the two lifecycle hooks, and the watch when \<open>configInput\<close> is a reactive cell.
\<close>

definition useVList :: "revision \<Rightarrow> config_input \<Rightarrow> vstate \<Rightarrow> vstate" where
  "useVList rv configInput st =
     (let st = st\<lparr>containerRef := None, instanceRef := None\<rparr>;
          st = st\<lparr>mounted_hooks := mounted_hooks st @ [MountedHook rv configInput]\<rparr>;
          st = st\<lparr>unmount_hooks := unmount_hooks st @ [DestroyHook]\<rparr>
      in if isRef configInput
         then st\<lparr>watchers := watchers st @ [ItemsWatcher configInput]\<rparr>
         else st)"

section \<open>useVListEvent\<close>

text \<open>
  \<open>instance.on(event, wrappedHandler)\<close> registers a listener and returns the function
  that releases it. The wrapped handler is a closure over the handler cell, so it is known
  by the index of that cell.
\<close>

definition on :: "string \<Rightarrow> nat \<Rightarrow> vlist_instance \<Rightarrow> vstate \<Rightarrow> vstate" where
  "on event href inst st = st\<lparr>effects := effects st @ [On (vid inst) event href]\<rparr>"

definition wrappedHandler :: "nat \<Rightarrow> payload \<Rightarrow> vstate \<Rightarrow> vstate" where
  "wrappedHandler href p st =
     st\<lparr>effects := effects st @ [HandlerCall (handler_cells st href) p]\<rparr>"

text \<open>
  The framework's \<open>onBeforeUnmount\<close>, called while a reaction runs. It registers the hook
  on the component that is being set up or whose lifecycle hook is running. A reaction
  that the framework runs from its scheduler has no such component, and the call registers
  nothing.
\<close>

definition register_unmount :: "bool \<Rightarrow> hook \<Rightarrow> vstate \<Rightarrow> vstate" where
  "register_unmount in_component h st =
     (if in_component then st\<lparr>unmount_hooks := unmount_hooks st @ [h]\<rparr> else st)"

text \<open>
  The reaction of the watch on \<open>instanceRef.value\<close>. Its first argument says whether it
  runs inside the setup of a component.
\<close>

definition event_watch_cb ::
  "bool \<Rightarrow> string \<Rightarrow> nat \<Rightarrow> vlist_instance option \<Rightarrow> vstate \<Rightarrow> error + vstate" where
  "event_watch_cb in_component event href inst st =
     (case inst of
        None \<Rightarrow> Inr st
      | Some i \<Rightarrow>
         (case member_call inst (on event href) st of
            Inl e \<Rightarrow> Inl e
          | Inr st1 \<Rightarrow>
              Inr (register_unmount in_component (UnsubHook (vid i) event href) st1)))"

text \<open>
  The body of \<open>useVListEvent\<close>, called in the setup of a component: a new cell for the
  handler, the watch, and, since the watch is \<open>immediate\<close>, one run of its reaction, here
  and now, on the value the reference has; that value is the one the watch has seen.
\<close>

definition useVListEvent :: "string \<Rightarrow> fn_id \<Rightarrow> vstate \<Rightarrow> error + vstate" where
  "useVListEvent event handler st =
     (let href = next_cell st;
          st = st\<lparr>handler_cells := (handler_cells st)(href := handler), next_cell := Suc href\<rparr>;
          st = st\<lparr>watchers := watchers st @
                  [InstanceWatcher event href (map_option vid (instanceRef st))]\<rparr>
      in event_watch_cb True event href (instanceRef st) st)"

section \<open>The host framework\<close>

text \<open>
  What the framework does with the registered callbacks. A lifecycle signal runs the hooks
  registered for it, in the order of their registration, and an exception ends the run.
  An assignment to a watched reference queues the reactions of its watches; the framework
  runs them at its next flush, after the hook that made the assignment has returned. At
  the flush a watch of the instance reference reacts when the reference holds another
  value than the watch saw last, and that value is then the one it has seen. A change of
  the items of a configuration cell runs the reactions of the watches on that cell.
\<close>

definition run_hook :: "hook \<Rightarrow> vstate \<Rightarrow> error + vstate" where
  "run_hook h st =
     (case h of
        MountedHook rv configInput \<Rightarrow> onMounted rv configInput st
      | DestroyHook \<Rightarrow> onBeforeUnmount st
      | UnsubHook v event href \<Rightarrow> Inr (st\<lparr>effects := effects st @ [Unsub v event href]\<rparr>))"

fun run_hooks :: "hook list \<Rightarrow> vstate \<Rightarrow> error + vstate" where
  "run_hooks [] st = Inr st"
| "run_hooks (h # hs) st =
     (case run_hook h st of Inl e \<Rightarrow> Inl e | Inr st1 \<Rightarrow> run_hooks hs st1)"

definition mount_signal :: "vstate \<Rightarrow> error + vstate" where
  "mount_signal st = run_hooks (mounted_hooks st) st"

definition unmount_signal :: "vstate \<Rightarrow> error + vstate" where
  "unmount_signal st = run_hooks (unmount_hooks st) st"

fun run_instance_watchers :: "watcher list \<Rightarrow> vstate \<Rightarrow> error + watcher list \<times> vstate" where
  "run_instance_watchers [] st = Inr ([], st)"
| "run_instance_watchers (ItemsWatcher configInput # ws) st =
     (case run_instance_watchers ws st of
        Inl e \<Rightarrow> Inl e
      | Inr (ws1, st1) \<Rightarrow> Inr (ItemsWatcher configInput # ws1, st1))"
| "run_instance_watchers (InstanceWatcher event href seen # ws) st =
     (if seen = map_option vid (instanceRef st)
      then (case run_instance_watchers ws st of
              Inl e \<Rightarrow> Inl e
            | Inr (ws1, st1) \<Rightarrow> Inr (InstanceWatcher event href seen # ws1, st1))
      else (case event_watch_cb False event href (instanceRef st) st of
              Inl e \<Rightarrow> Inl e
            | Inr st1 \<Rightarrow>
               (case run_instance_watchers ws st1 of
                  Inl e \<Rightarrow> Inl e
                | Inr (ws1, st2) \<Rightarrow>
                    Inr (InstanceWatcher event href (map_option vid (instanceRef st)) # ws1,
                         st2))))"

definition flush :: "vstate \<Rightarrow> error + vstate" where
  "flush st =
     (case run_instance_watchers (watchers st) st of
        Inl e \<Rightarrow> Inl e
      | Inr (ws, st1) \<Rightarrow> Inr (st1\<lparr>watchers := ws\<rparr>))"

fun run_items_watchers :: "watcher list \<Rightarrow> config_input \<Rightarrow> item list option \<Rightarrow> vstate \<Rightarrow> error + vstate" where
  "run_items_watchers [] src newItems st = Inr st"
| "run_items_watchers (InstanceWatcher event href seen # ws) src newItems st =
     run_items_watchers ws src newItems st"
| "run_items_watchers (ItemsWatcher configInput # ws) src newItems st =
     (if configInput = src
      then (case items_watch_cb newItems st of
              Inl e \<Rightarrow> Inl e
            | Inr st1 \<Rightarrow> run_items_watchers ws src newItems st1)
      else run_items_watchers ws src newItems st)"

text \<open>
  The host assigns to the instance reference, and the framework flushes; or the host
  replaces the \<open>items\<close> field of the configuration a cell holds, and the framework reacts.
\<close>

definition instance_changed :: "vlist_instance option \<Rightarrow> vstate \<Rightarrow> error + vstate" where
  "instance_changed v st = flush (st\<lparr>instanceRef := v\<rparr>)"

definition items_changed :: "config_input \<Rightarrow> item list option \<Rightarrow> vstate \<Rightarrow> error + vstate" where
  "items_changed src newItems st =
     (let a = unref src;
          st = st\<lparr>heap := (heap st)(a := (heap st a)\<lparr>items := newItems\<rparr>)\<rparr>
      in run_items_watchers (watchers st) src newItems st)"

text \<open>A component on which nothing has been set up yet, over a heap of configurations.\<close>

definition fresh :: "(addr \<Rightarrow> vlist_config) \<Rightarrow> addr \<Rightarrow> vstate" where
  "fresh h n =
     \<lparr>heap = h, next_addr = n, next_vid = 0, containerRef = None, instanceRef = None,
      handler_cells = (\<lambda>_. 0), next_cell = 0, mounted_hooks = [], unmount_hooks = [],
      watchers = [], effects = []\<rparr>"

section \<open>Outcomes\<close>

text \<open>
  The outcome of a callback, read back: the instance it leaves published, the extensions
  that instance was built with, and the calls it added to the log.
\<close>

definition published :: "error + vstate \<Rightarrow> vlist_instance option" where
  "published r = (case r of Inl e \<Rightarrow> None | Inr st \<Rightarrow> instanceRef st)"

definition attached :: "error + vstate \<Rightarrow> extension list" where
  "attached r = (case published r of None \<Rightarrow> [] | Some inst \<Rightarrow> plugins (built_from inst))"

definition calls :: "vstate \<Rightarrow> error + vstate \<Rightarrow> effect list" where
  "calls st r = (case r of Inl e \<Rightarrow> [] | Inr st1 \<Rightarrow> drop (length (effects st)) (effects st1))"

definition raised :: "error + vstate \<Rightarrow> bool" where
  "raised r = (case r of Inl e \<Rightarrow> True | Inr st \<Rightarrow> False)"

fun is_build :: "effect \<Rightarrow> bool" where
  "is_build (Build inst) = True"
| "is_build e = False"

fun is_destroy :: "effect \<Rightarrow> bool" where
  "is_destroy (Destroy v) = True"
| "is_destroy e = False"

fun is_header_call :: "effect \<Rightarrow> bool" where
  "is_header_call (HeaderHeightCall g i) = True"
| "is_header_call e = False"

fun is_set_items :: "effect \<Rightarrow> bool" where
  "is_set_items (SetItems v xs) = True"
| "is_set_items e = False"

fun is_on :: "effect \<Rightarrow> bool" where
  "is_on (On v event href) = True"
| "is_on e = False"

text \<open>The eight extensions by name, and the order the specification fixes for them.\<close>

datatype ext_kind = Page | Async | Grid | Sections | Selection | Scale | Scrollbar | Snapshots

fun kind :: "extension \<Rightarrow> ext_kind" where
  "kind WithPage = Page"
| "kind (WithAsync a l) = Async"
| "kind (WithGrid g) = Grid"
| "kind (WithSections s) = Sections"
| "kind (WithSelection s) = Selection"
| "kind WithScale = Scale"
| "kind (WithScrollbar ob) = Scrollbar"
| "kind WithSnapshots = Snapshots"

definition of_kind :: "ext_kind \<Rightarrow> extension list \<Rightarrow> extension list" where
  "of_kind k es = filter (\<lambda>e. kind e = k) es"

definition extension_order :: "ext_kind list" where
  "extension_order = [Page, Async, Grid, Sections, Selection, Scale, Scrollbar, Snapshots]"

text \<open>
  When the specification has an extension attached (section 4.1, steps 1 to 8): the
  page-scroll extension when the scroll target is the global viewport, the async-loading
  one when an adapter is configured, the grid one when the layout is \<open>"grid"\<close> and grid
  parameters are supplied, the section-grouping one when a grouping configuration is
  supplied, the scrollbar one unless the scrollbar setting is \<open>"none"\<close>, and the other
  three always.
\<close>

fun attaches :: "vlist_config \<Rightarrow> ext_kind \<Rightarrow> bool" where
  "attaches config Page = (scroll_element_of config = Some Window)"
| "attaches config Async = (adapter config \<noteq> None)"
| "attaches config Grid = (layout config = Some ''grid'' \<and> grid config \<noteq> None)"
| "attaches config Sections = (groups config \<noteq> None)"
| "attaches config Selection = True"
| "attaches config Scale = True"
| "attaches config Scrollbar = (scrollbarConfig config \<noteq> Some (SbString ''none''))"
| "attaches config Snapshots = True"

text \<open>
  The mount callback in closed form: the argument of \<open>withSections\<close>, the calls of a
  header-height function, the extensions in the order of their \<open>use\<close> calls, and the
  instance built.
\<close>

definition sections_options :: "revision \<Rightarrow> groups_config \<Rightarrow> sections_arg" where
  "sections_options rv g =
     (case rv of
        SrcIndex \<Rightarrow> GroupsObject g
      | Part002 \<Rightarrow>
          SectionsOptions (getGroupForIndex g)
            (case headerHeight g of HeightFunction f \<Rightarrow> f [] 0 | HeightNumber n \<Rightarrow> n)
            (headerTemplate g) (sticky g))"

definition header_calls :: "revision \<Rightarrow> vlist_config \<Rightarrow> effect list" where
  "header_calls rv config =
     (case groups config of
        None \<Rightarrow> []
      | Some g \<Rightarrow>
         (case rv of
            SrcIndex \<Rightarrow> []
          | Part002 \<Rightarrow>
             (case headerHeight g of
                HeightFunction f \<Rightarrow> [HeaderHeightCall [] 0]
              | HeightNumber n \<Rightarrow> [])))"

definition mount_plugins :: "revision \<Rightarrow> vlist_config \<Rightarrow> extension list" where
  "mount_plugins rv config =
     (if scroll_element_of config = Some Window then [WithPage] else []) @
     (case adapter config of Some a \<Rightarrow> [WithAsync a (loading config)] | None \<Rightarrow> []) @
     (if layout config = Some ''grid''
      then (case grid config of Some g \<Rightarrow> [WithGrid g] | None \<Rightarrow> []) else []) @
     (case groups config of Some g \<Rightarrow> [WithSections (sections_options rv g)] | None \<Rightarrow> []) @
     [WithSelection (if selectionMode config \<noteq> ModeNone
                     then SelectionObject (selection config) else ModeNoneLiteral)] @
     [WithScale] @
     (if scrollbarConfig config \<noteq> Some (SbString ''none'')
      then [WithScrollbar (scrollbarOptions (scrollbarConfig config))] else []) @
     [WithSnapshots]"

definition mounted :: "revision \<Rightarrow> config_input \<Rightarrow> vstate \<Rightarrow> vlist_instance" where
  "mounted rv configInput st =
     \<lparr>vid = next_vid st,
      built_from = \<lparr>seed = next_addr st,
                    plugins = mount_plugins rv (heap st (unref configInput))\<rparr>\<rparr>"

text \<open>
  The configurations of the examples. The first is the scenario of the specification:
  an item height and template, three items, and nothing else. The second has a grouping
  configuration whose header height is a function, a selection in single mode and a
  scrollbar switched off in the scroll options.
\<close>

definition plain_config :: vlist_config where
  "plain_config =
     \<lparr>container = None, item_config = [(''height'', 48)], items = Some [1, 2, 3],
      scroll = None, adapter = None, loading = None, layout = None, grid = None,
      groups = None, selection = None, scrollbar = None\<rparr>"

definition header_by_index :: "string \<Rightarrow> int \<Rightarrow> int" where
  "header_by_index g i = 32 + i"

definition letter_groups :: groups_config where
  "letter_groups =
     \<lparr>getGroupForIndex = 7, headerHeight = HeightFunction header_by_index,
      headerTemplate = 8, sticky = Some True\<rparr>"

definition single_selection :: selection_config where
  "single_selection = \<lparr>mode = Some ModeSingle, initial = [2]\<rparr>"

definition grouped_config :: vlist_config where
  "grouped_config =
     \<lparr>container = None, item_config = [(''height'', 48)], items = Some [1, 2, 3],
      scroll = Some \<lparr>element = Some Window, scrollbar_override = Some (SbString ''none'')\<rparr>,
      adapter = None, loading = None, layout = None, grid = None,
      groups = Some letter_groups, selection = Some single_selection,
      scrollbar = Some (SbObject [(''autoHide'', 1)])\<rparr>"

definition example_heap :: "addr \<Rightarrow> vlist_config" where
  "example_heap a = (if a = 0 then plain_config else grouped_config)"

text \<open>
  A component on which \<open>useVList\<close> has run, and the same after the host has bound the
  container.
\<close>

definition set_up :: "revision \<Rightarrow> config_input \<Rightarrow> vstate" where
  "set_up rv configInput = useVList rv configInput (fresh example_heap 2)"

definition rendered :: "revision \<Rightarrow> config_input \<Rightarrow> vstate" where
  "rendered rv configInput = (set_up rv configInput)\<lparr>containerRef := Some 5\<rparr>"

text \<open>The same component after the mount signal.\<close>

definition live :: "revision \<Rightarrow> config_input \<Rightarrow> vstate" where
  "live rv configInput =
     (case mount_signal (rendered rv configInput) of
        Inl e \<Rightarrow> rendered rv configInput
      | Inr st \<Rightarrow> st)"

text \<open>
  A flush in closed form, for the value \<open>cur\<close> of the instance reference: the listeners
  it registers, one for each watch of \<open>useVListEvent\<close> that has not seen \<open>cur\<close> when
  \<open>cur\<close> is an instance, and the watches afterwards, which have all seen \<open>cur\<close>.
\<close>

fun flushed_ons :: "nat option \<Rightarrow> watcher list \<Rightarrow> effect list" where
  "flushed_ons cur [] = []"
| "flushed_ons cur (ItemsWatcher configInput # ws) = flushed_ons cur ws"
| "flushed_ons cur (InstanceWatcher event href seen # ws) =
     (case cur of
        None \<Rightarrow> []
      | Some v \<Rightarrow> (if seen = Some v then [] else [On v event href])) @ flushed_ons cur ws"

fun seen_now :: "nat option \<Rightarrow> watcher \<Rightarrow> watcher" where
  "seen_now cur (ItemsWatcher configInput) = ItemsWatcher configInput"
| "seen_now cur (InstanceWatcher event href seen) = InstanceWatcher event href cur"

text \<open>
  A configuration whose scroll options carry scrollbar options of their own, over a
  top-level scrollbar setting of \<open>"none"\<close>, and a component that has it.
\<close>

definition thumb_config :: vlist_config where
  "thumb_config =
     plain_config
       \<lparr>scroll := Some \<lparr>element = None,
                         scrollbar_override = Some (SbObject [(''autoHide'', 1)])\<rparr>,
        scrollbar := Some (SbString ''none'')\<rparr>"

definition thumb_state :: vstate where
  "thumb_state = (rendered SrcIndex (Plain 0))\<lparr>heap := example_heap(0 := thumb_config)\<rparr>"

section \<open>The mount callback, step by step\<close>

lemma use_simps: "plugins (use e b) = plugins b @ [e]" "seed (use e b) = seed b"
  by (simp_all add: use_def)

lemma page_step_simps:
  "plugins (page_step config b) =
     plugins b @ (if scroll_element_of config = Some Window then [WithPage] else [])"
  "seed (page_step config b) = seed b"
  by (simp_all add: page_step_def use_simps)

lemma async_step_simps:
  "plugins (async_step config b) =
     plugins b @ (case adapter config of Some a \<Rightarrow> [WithAsync a (loading config)] | None \<Rightarrow> [])"
  "seed (async_step config b) = seed b"
  by (simp_all add: async_step_def use_simps split: option.splits)

lemma grid_step_simps:
  "plugins (grid_step config b) =
     plugins b @ (if layout config = Some ''grid''
                  then (case grid config of Some g \<Rightarrow> [WithGrid g] | None \<Rightarrow> []) else [])"
  "seed (grid_step config b) = seed b"
  by (simp_all add: grid_step_def use_simps split: option.splits)

lemma sections_step_simps:
  "plugins (fst (sections_step rv config (b, st))) =
     plugins b @ (case groups config of
                    Some g \<Rightarrow> [WithSections (sections_options rv g)] | None \<Rightarrow> [])"
  "seed (fst (sections_step rv config (b, st))) = seed b"
  "snd (sections_step rv config (b, st)) = st\<lparr>effects := effects st @ header_calls rv config\<rparr>"
  by (simp_all add: sections_step_def sections_options_def header_calls_def use_simps
      split: option.splits revision.splits header_height.splits)

lemma selection_step_simps:
  "plugins (selection_step config b) =
     plugins b @ [WithSelection (if selectionMode config \<noteq> ModeNone
                                 then SelectionObject (selection config) else ModeNoneLiteral)]"
  "seed (selection_step config b) = seed b"
  by (simp_all add: selection_step_def use_simps)

lemma scrollbar_step_simps:
  "plugins (scrollbar_step config b) =
     plugins b @ (if scrollbarConfig config \<noteq> Some (SbString ''none'')
                  then [WithScrollbar (scrollbarOptions (scrollbarConfig config))] else [])"
  "seed (scrollbar_step config b) = seed b"
  by (simp_all add: scrollbar_step_def use_simps)

lemma builder_eqI:
  "seed b = a \<Longrightarrow> plugins b = ps \<Longrightarrow> (b::builder) = \<lparr>seed = a, plugins = ps\<rparr>"
  by (cases b) simp

text \<open>
  With a container, the callback allocates the seed object, calls the header-height
  function if \<open>part_002\<close> has one to call, builds, and publishes what it built.
\<close>

lemma onMounted_Some:
  assumes "containerRef st = Some c"
  shows "onMounted rv configInput st =
     Inr (st\<lparr>heap := (heap st)(next_addr st := (heap st (unref configInput))\<lparr>container := Some c\<rparr>),
            next_addr := Suc (next_addr st),
            effects := effects st @ header_calls rv (heap st (unref configInput))
                         @ [Build (mounted rv configInput st)],
            next_vid := Suc (next_vid st),
            instanceRef := Some (mounted rv configInput st)\<rparr>)"
proof -
  let ?config = "heap st (unref configInput)"
  let ?st1 = "st\<lparr>heap := (heap st)(next_addr st := ?config\<lparr>container := Some c\<rparr>),
                 next_addr := Suc (next_addr st)\<rparr>"
  let ?b3 = "grid_step ?config (async_step ?config (page_step ?config (vlist (next_addr st))))"
  let ?b = "use WithSnapshots (scrollbar_step ?config (use WithScale (selection_step ?config
              (fst (sections_step rv ?config (?b3, ?st1))))))"
  have b: "?b = \<lparr>seed = next_addr st, plugins = mount_plugins rv ?config\<rparr>"
    by (rule builder_eqI)
       (simp_all add: use_simps page_step_simps async_step_simps grid_step_simps
          sections_step_simps selection_step_simps scrollbar_step_simps vlist_def
          mount_plugins_def)
  show ?thesis
    using assms
    apply (simp add: onMounted_def new_object_def Let_def split_beta build_def
        sections_step_simps)
    apply (simp only: b mounted_def)
    apply simp
    done
qed

lemma onMounted_None: "containerRef st = None \<Longrightarrow> onMounted rv configInput st = Inr st"
  by (simp add: onMounted_def)

lemma published_mounted:
  "containerRef st = Some c \<Longrightarrow>
   published (onMounted rv configInput st) = Some (mounted rv configInput st)"
  by (simp add: onMounted_Some published_def)

lemma attached_mounted:
  "containerRef st = Some c \<Longrightarrow>
   attached (onMounted rv configInput st) = mount_plugins rv (heap st (unref configInput))"
  by (simp add: attached_def published_mounted mounted_def)

lemma calls_mounted:
  "containerRef st = Some c \<Longrightarrow>
   calls st (onMounted rv configInput st) =
     header_calls rv (heap st (unref configInput)) @ [Build (mounted rv configInput st)]"
  by (simp add: onMounted_Some calls_def)

lemma header_calls_not_build: "filter is_build (header_calls rv config) = []"
  by (simp add: header_calls_def split: option.splits revision.splits header_height.splits)

lemma kinds_mount_plugins:
  "map kind (mount_plugins rv config) = filter (attaches config) extension_order"
  by (simp add: mount_plugins_def extension_order_def split: option.splits)

lemma onBeforeUnmount_eq:
  "onBeforeUnmount st =
     Inr (st\<lparr>effects := effects st @ (case instanceRef st of
                                         None \<Rightarrow> [] | Some inst \<Rightarrow> [Destroy (vid inst)]),
            instanceRef := None\<rparr>)"
  by (simp add: onBeforeUnmount_def optional_call_def destroy_def split: option.splits)

section \<open>Components of the examples\<close>

lemma useVList_fresh_simps:
  "containerRef (useVList rv ci (fresh h n)) = None"
  "instanceRef (useVList rv ci (fresh h n)) = None"
  "mounted_hooks (useVList rv ci (fresh h n)) = [MountedHook rv ci]"
  "unmount_hooks (useVList rv ci (fresh h n)) = [DestroyHook]"
  "effects (useVList rv ci (fresh h n)) = []"
  "heap (useVList rv ci (fresh h n)) = h"
  "next_addr (useVList rv ci (fresh h n)) = n"
  "next_vid (useVList rv ci (fresh h n)) = 0"
  "watchers (useVList rv ci (fresh h n)) = (if isRef ci then [ItemsWatcher ci] else [])"
  by (simp_all add: useVList_def fresh_def Let_def)

lemma set_up_simps:
  "containerRef (set_up rv ci) = None"
  "instanceRef (set_up rv ci) = None"
  "mounted_hooks (set_up rv ci) = [MountedHook rv ci]"
  "unmount_hooks (set_up rv ci) = [DestroyHook]"
  "effects (set_up rv ci) = []"
  "heap (set_up rv ci) = example_heap"
  "next_addr (set_up rv ci) = 2"
  "next_vid (set_up rv ci) = 0"
  "watchers (set_up rv ci) = (if isRef ci then [ItemsWatcher ci] else [])"
  by (simp_all add: set_up_def useVList_fresh_simps)

lemma rendered_simps:
  "containerRef (rendered rv ci) = Some 5"
  "instanceRef (rendered rv ci) = None"
  "mounted_hooks (rendered rv ci) = [MountedHook rv ci]"
  "unmount_hooks (rendered rv ci) = [DestroyHook]"
  "effects (rendered rv ci) = []"
  "heap (rendered rv ci) = example_heap"
  "next_addr (rendered rv ci) = 2"
  "next_vid (rendered rv ci) = 0"
  "watchers (rendered rv ci) = (if isRef ci then [ItemsWatcher ci] else [])"
  by (simp_all add: rendered_def set_up_simps)

lemma live_eq:
  "live rv ci =
     (rendered rv ci)\<lparr>heap := example_heap(2 := (example_heap (unref ci))\<lparr>container := Some 5\<rparr>),
                       next_addr := 3,
                       effects := header_calls rv (example_heap (unref ci)) @ [Build (mounted rv ci (rendered rv ci))],
                       next_vid := 1,
                       instanceRef := Some (mounted rv ci (rendered rv ci))\<rparr>"
proof -
  have c: "containerRef (rendered rv ci) = Some 5" by (simp add: rendered_simps)
  show ?thesis
    by (simp add: live_def mount_signal_def rendered_simps run_hook_def onMounted_Some [OF c])
qed

lemma live_simps:
  "instanceRef (live rv ci) = Some (mounted rv ci (rendered rv ci))"
  "vid (mounted rv ci (rendered rv ci)) = 0"
  "watchers (live rv ci) = (if isRef ci then [ItemsWatcher ci] else [])"
  "unmount_hooks (live rv ci) = [DestroyHook]"
  by (simp_all add: live_eq mounted_def rendered_simps)

lemma next_cell_simps:
  "next_cell (set_up rv ci) = 0"
  "next_cell (live rv ci) = 0"
  by (simp_all add: live_eq rendered_def set_up_def useVList_def fresh_def Let_def)

section \<open>Mounting\<close>

text \<open>
  Claim C8. If the container reference is still \<open>null\<close> when the mount callback runs,
  the callback returns the state it was given: no seed object and no builder, no
  extension, no instance, no call on the engine, the published reference as it was, and no
  exception. A component on which only \<open>useVList\<close> has run is therefore left as it is by
  the mount signal, its published reference empty.
\<close>

theorem mount_without_container:
  "containerRef st = None \<Longrightarrow>
     onMounted rv configInput st = Inr st
   \<and> \<not> raised (onMounted rv configInput st)
   \<and> calls st (onMounted rv configInput st) = []
   \<and> published (onMounted rv configInput st) = instanceRef st
   \<and> mount_signal (useVList rv configInput (fresh h n)) = Inr (useVList rv configInput (fresh h n))"
  by (simp add: onMounted_None raised_def calls_def published_def mount_signal_def
      useVList_fresh_simps run_hook_def)

theorem mount_without_container_witness:
  "onMounted Part002 (Plain 0) (set_up Part002 (Plain 0)) = Inr (set_up Part002 (Plain 0))
   \<and> published (onMounted Part002 (Plain 0) (set_up Part002 (Plain 0))) = None"
proof -
  have h: "containerRef (set_up Part002 (Plain 0)) = None"
    by (simp add: set_up_simps)
  from mount_without_container [OF h, of Part002 "Plain 0" example_heap 2]
  show ?thesis by (auto simp add: set_up_simps)
qed

text \<open>
  Claim C2. With a container, the extensions of the published instance are, by name, the
  fixed order page-scroll, async-loading, grid-layout, section-grouping, selection, scale,
  scrollbar, snapshot, with the ones left out whose condition the configuration does not
  meet; selection, scale and snapshot are never left out. The builder is finalized once,
  after every \<open>use\<close>, as the last call of the callback, and the instance it yields is the
  one published.
\<close>

theorem extensions_in_fixed_order:
  "containerRef st = Some c \<Longrightarrow>
   \<exists>inst. published (onMounted rv configInput st) = Some inst
     \<and> map kind (plugins (built_from inst)) =
         filter (attaches (heap st (unref configInput))) extension_order
     \<and> filter is_build (calls st (onMounted rv configInput st)) = [Build inst]
     \<and> last (calls st (onMounted rv configInput st)) = Build inst"
  by (simp add: published_mounted calls_mounted header_calls_not_build mounted_def
      kinds_mount_plugins)

theorem extensions_in_fixed_order_witness:
  "map kind (attached (onMounted Part002 (Plain 1) (rendered Part002 (Plain 1)))) =
     [Page, Sections, Selection, Scale, Snapshots]
   \<and> map kind (attached (onMounted SrcIndex (Plain 0) (rendered SrcIndex (Plain 0)))) =
     [Selection, Scale, Scrollbar, Snapshots]"
proof -
  have h1: "containerRef (rendered Part002 (Plain 1)) = Some 5"
   and h0: "containerRef (rendered SrcIndex (Plain 0)) = Some 5"
    by (simp_all add: rendered_simps)
  from extensions_in_fixed_order [OF h1, of Part002 "Plain 1"]
       extensions_in_fixed_order [OF h0, of SrcIndex "Plain 0"]
  show ?thesis
    by (auto simp add: attached_def rendered_simps unref_def example_heap_def
        extension_order_def grouped_config_def plain_config_def scroll_element_of_def
        scrollbarConfig_def js_or_def truthy_def scroll_scrollbar_of_def)
qed

text \<open>
  Claim C10. The mount callback does not write to the configuration object it was given.
  The engine is created from a new object, at an address no object had before, that has
  the fields of the configuration and the container; the object at the address of the
  configuration is afterwards what it was before, its \<open>container\<close> field included. The
  hypothesis says that the configuration is an object of the heap, below the next free
  address.
\<close>

theorem mount_leaves_config_unchanged:
  "unref configInput < next_addr st \<Longrightarrow>
   \<exists>st1. onMounted rv configInput st = Inr st1
     \<and> heap st1 (unref configInput) = heap st (unref configInput)
     \<and> (\<forall>c. containerRef st = Some c \<longrightarrow>
          (\<exists>inst. instanceRef st1 = Some inst
             \<and> seed (built_from inst) = next_addr st
             \<and> seed (built_from inst) \<noteq> unref configInput
             \<and> heap st1 (seed (built_from inst)) =
                 (heap st (unref configInput))\<lparr>container := Some c\<rparr>))"
proof (cases "containerRef st")
  case None
  then show ?thesis by (simp add: onMounted_None)
next
  case (Some c)
  assume "unref configInput < next_addr st"
  then show ?thesis by (simp add: onMounted_Some [OF Some] Some mounted_def)
qed

theorem mount_leaves_config_unchanged_witness:
  "\<exists>st1. onMounted Part002 (Plain 1) (rendered Part002 (Plain 1)) = Inr st1
     \<and> heap st1 1 = grouped_config \<and> container (heap st1 1) = None
     \<and> container (heap st1 2) = Some 5"
proof -
  have h: "unref (Plain 1) < next_addr (rendered Part002 (Plain 1))"
    by (simp add: unref_def rendered_simps)
  from mount_leaves_config_unchanged [OF h, of Part002]
  show ?thesis
    by (auto simp add: rendered_simps unref_def example_heap_def grouped_config_def)
qed

section \<open>Mounting and unmounting\<close>

lemma mount_signal_fresh:
  "mount_signal ((useVList rv ci (fresh h n))\<lparr>containerRef := Some c\<rparr>) =
     onMounted rv ci ((useVList rv ci (fresh h n))\<lparr>containerRef := Some c\<rparr>)"
  by (simp add: mount_signal_def useVList_fresh_simps run_hook_def split: sum.splits)

lemma header_calls_not_destroy: "filter is_destroy (header_calls rv config) = []"
  by (simp add: header_calls_def split: option.splits revision.splits header_height.splits)

lemma unmount_signal_destroy_only:
  "unmount_hooks st = [DestroyHook] \<Longrightarrow> unmount_signal st = onBeforeUnmount st"
  by (simp add: unmount_signal_def run_hook_def split: sum.splits)

text \<open>
  Claim C1. With a container, the mount callback publishes an instance, and that instance
  is the only one it builds; the unmount callback, run next, calls \<open>destroy\<close> on that
  instance and leaves the published reference empty. The second half says the same of
  the signals, on a component on which \<open>useVList\<close> has run and whose container the host
  has bound: after the mount signal one instance has been built and none destroyed, after
  the unmount signal that instance has been destroyed and the reference is empty.
\<close>

theorem one_instance_per_mount:
  "containerRef st = Some c \<Longrightarrow>
   (\<exists>inst st1 st2.
       onMounted rv configInput st = Inr st1
     \<and> instanceRef st1 = Some inst
     \<and> filter is_build (calls st (Inr st1)) = [Build inst]
     \<and> onBeforeUnmount st1 = Inr st2
     \<and> calls st1 (Inr st2) = [Destroy (vid inst)]
     \<and> instanceRef st2 = None)
   \<and> (\<exists>inst st1 st2.
       mount_signal ((useVList rv configInput (fresh h n))\<lparr>containerRef := Some c\<rparr>) = Inr st1
     \<and> instanceRef st1 = Some inst
     \<and> filter is_build (effects st1) = [Build inst]
     \<and> filter is_destroy (effects st1) = []
     \<and> unmount_signal st1 = Inr st2
     \<and> filter is_build (effects st2) = [Build inst]
     \<and> filter is_destroy (effects st2) = [Destroy (vid inst)]
     \<and> instanceRef st2 = None)"
proof (intro conjI)
  assume c: "containerRef st = Some c"
  show "\<exists>inst st1 st2.
       onMounted rv configInput st = Inr st1
     \<and> instanceRef st1 = Some inst
     \<and> filter is_build (calls st (Inr st1)) = [Build inst]
     \<and> onBeforeUnmount st1 = Inr st2
     \<and> calls st1 (Inr st2) = [Destroy (vid inst)]
     \<and> instanceRef st2 = None"
    by (simp add: onMounted_Some [OF c] onBeforeUnmount_eq calls_def header_calls_not_build)
next
  let ?s = "(useVList rv configInput (fresh h n))\<lparr>containerRef := Some c\<rparr>"
  have c: "containerRef ?s = Some c" by simp
  show "\<exists>inst st1 st2.
       mount_signal ?s = Inr st1
     \<and> instanceRef st1 = Some inst
     \<and> filter is_build (effects st1) = [Build inst]
     \<and> filter is_destroy (effects st1) = []
     \<and> unmount_signal st1 = Inr st2
     \<and> filter is_build (effects st2) = [Build inst]
     \<and> filter is_destroy (effects st2) = [Destroy (vid inst)]
     \<and> instanceRef st2 = None"
    by (simp add: mount_signal_fresh onMounted_Some [OF c] unmount_signal_def run_hook_def
        onBeforeUnmount_eq useVList_fresh_simps header_calls_not_build
        header_calls_not_destroy mounted_def)
qed

theorem one_instance_per_mount_witness:
  "\<exists>inst st1 st2.
       onMounted SrcIndex (Reactive 1) (rendered SrcIndex (Reactive 1)) = Inr st1
     \<and> instanceRef st1 = Some inst
     \<and> filter is_build (effects st1) = [Build inst]
     \<and> onBeforeUnmount st1 = Inr st2
     \<and> filter is_destroy (effects st2) = [Destroy 0]
     \<and> instanceRef st2 = None"
proof -
  have h: "containerRef (rendered SrcIndex (Reactive 1)) = Some 5"
    by (simp add: rendered_simps)
  from one_instance_per_mount [OF h, of SrcIndex "Reactive 1" example_heap 2]
  obtain inst st1 st2 where
    m: "onMounted SrcIndex (Reactive 1) (rendered SrcIndex (Reactive 1)) = Inr st1"
    and i: "instanceRef st1 = Some inst"
    and b: "filter is_build (calls (rendered SrcIndex (Reactive 1)) (Inr st1)) = [Build inst]"
    and u: "onBeforeUnmount st1 = Inr st2"
    and d: "calls st1 (Inr st2) = [Destroy (vid inst)]"
    and e: "instanceRef st2 = None"
    by blast
  have "filter is_build (effects st1) = [Build inst]"
    using b by (simp add: calls_def rendered_simps)
  moreover have "filter is_destroy (effects st2) = [Destroy 0]"
    using m i u h
    by (auto simp add: onMounted_Some onBeforeUnmount_eq header_calls_def mounted_def
        rendered_simps split: option.splits revision.splits header_height.splits)
  ultimately show ?thesis using m i u e by blast
qed

text \<open>
  Claim C9. The unmount callback never raises. It calls \<open>destroy\<close> when an instance is
  published, on that instance and once, and makes no call otherwise; in every case the
  published reference is empty afterwards. On a state with no published instance it
  changes nothing, so a second run in a row changes nothing. The same holds of the
  unmount signal on a component whose only unmount hook is the one of \<open>useVList\<close>,
  whether the component was ever mounted or not.
\<close>

theorem unmount_idempotent:
  "(instanceRef st = None \<longrightarrow> onBeforeUnmount st = Inr st)
   \<and> \<not> raised (onBeforeUnmount st)
   \<and> published (onBeforeUnmount st) = None
   \<and> calls st (onBeforeUnmount st) =
        (case instanceRef st of None \<Rightarrow> [] | Some inst \<Rightarrow> [Destroy (vid inst)])
   \<and> (\<forall>st1. onBeforeUnmount st = Inr st1 \<longrightarrow> onBeforeUnmount st1 = Inr st1)
   \<and> unmount_signal (useVList rv configInput (fresh h n)) = Inr (useVList rv configInput (fresh h n))
   \<and> (\<forall>st1. unmount_hooks st = [DestroyHook] \<and> unmount_signal st = Inr st1
          \<longrightarrow> instanceRef st1 = None \<and> unmount_signal st1 = Inr st1)"
proof -
  have a: "instanceRef s = None \<Longrightarrow> onBeforeUnmount s = Inr s" for s
    by (simp add: onBeforeUnmount_eq)
  have n: "onBeforeUnmount s = Inr s1 \<Longrightarrow> instanceRef s1 = None" for s s1
    by (auto simp add: onBeforeUnmount_eq)
  have b: "onBeforeUnmount s = Inr s1 \<Longrightarrow> onBeforeUnmount s1 = Inr s1" for s s1
    by (rule a) (rule n)
  have k: "unmount_hooks s1 = unmount_hooks s" if "onBeforeUnmount s = Inr s1" for s s1
    using that by (auto simp add: onBeforeUnmount_eq)
  show ?thesis
  proof (intro conjI allI impI)
    fix st1
    assume "unmount_hooks st = [DestroyHook] \<and> unmount_signal st = Inr st1"
    then have hs: "unmount_hooks st = [DestroyHook]" and o: "onBeforeUnmount st = Inr st1"
      by (auto simp add: unmount_signal_destroy_only)
    from k [OF o] hs have h1: "unmount_hooks st1 = [DestroyHook]" by simp
    show "instanceRef st1 = None" by (rule n [OF o])
    show "unmount_signal st1 = Inr st1"
      using b [OF o] by (simp add: unmount_signal_destroy_only [OF h1])
  qed (auto simp add: a b raised_def published_def calls_def onBeforeUnmount_eq
        unmount_signal_destroy_only useVList_fresh_simps split: option.splits)
qed

theorem unmount_idempotent_witness:
  "onBeforeUnmount (set_up Part002 (Plain 0)) = Inr (set_up Part002 (Plain 0))
   \<and> unmount_signal (set_up Part002 (Plain 0)) = Inr (set_up Part002 (Plain 0))
   \<and> (\<exists>st1. unmount_signal (live Part002 (Plain 0)) = Inr st1
          \<and> instanceRef st1 = None \<and> unmount_signal st1 = Inr st1)"
proof -
  have h: "instanceRef (set_up Part002 (Plain 0)) = None"
    by (simp add: set_up_simps)
  have e: "useVList Part002 (Plain 0) (fresh example_heap 2) = set_up Part002 (Plain 0)"
    by (simp add: set_up_def)
  have u: "unmount_hooks (live Part002 (Plain 0)) = [DestroyHook]"
    by (simp add: live_simps)
  obtain st1 where s: "unmount_signal (live Part002 (Plain 0)) = Inr st1"
    by (simp add: unmount_signal_destroy_only [OF u] onBeforeUnmount_eq)
  from unmount_idempotent [of "set_up Part002 (Plain 0)" Part002 "Plain 0" example_heap 2] h
  have a: "onBeforeUnmount (set_up Part002 (Plain 0)) = Inr (set_up Part002 (Plain 0))
     \<and> unmount_signal (set_up Part002 (Plain 0)) = Inr (set_up Part002 (Plain 0))"
    unfolding e by blast
  from unmount_idempotent [of "live Part002 (Plain 0)" Part002 "Plain 0" example_heap 2] u s
  have "instanceRef st1 = None \<and> unmount_signal st1 = Inr st1"
    by blast
  with a s show ?thesis by blast
qed

section \<open>Selection, scrollbar and sections\<close>

lemma of_kind_simps:
  "of_kind k [] = []"
  "of_kind k (e # es) = (if kind e = k then e # of_kind k es else of_kind k es)"
  "of_kind k (xs @ ys) = of_kind k xs @ of_kind k ys"
  by (simp_all add: of_kind_def)

lemma selection_of_mount_plugins:
  "of_kind Selection (mount_plugins rv config) =
     [WithSelection (if selectionMode config \<noteq> ModeNone
                     then SelectionObject (selection config) else ModeNoneLiteral)]"
  by (simp add: mount_plugins_def of_kind_simps split: option.splits)

lemma scrollbar_of_mount_plugins:
  "of_kind Scrollbar (mount_plugins rv config) =
     (if scrollbarConfig config \<noteq> Some (SbString ''none'')
      then [WithScrollbar (scrollbarOptions (scrollbarConfig config))] else [])"
  by (simp add: mount_plugins_def of_kind_simps split: option.splits)

lemma sections_of_mount_plugins:
  "of_kind Sections (mount_plugins rv config) =
     (case groups config of Some g \<Rightarrow> [WithSections (sections_options rv g)] | None \<Rightarrow> [])"
  by (simp add: mount_plugins_def of_kind_simps split: option.splits)

text \<open>
  Claim C5. With a container, the published instance has the selection extension, and has
  it once. When the configuration has a selection whose mode is \<open>"single"\<close> or
  \<open>"multiple"\<close>, the extension was made from the selection configuration itself; when the
  mode is \<open>"none"\<close> or is left out, or when there is no selection configuration, it was
  made from the literal \<open>{ mode: "none" }\<close>.
\<close>

theorem selection_always_attached:
  "containerRef st = Some c \<Longrightarrow>
   length (of_kind Selection (attached (onMounted rv configInput st))) = 1
   \<and> (\<forall>s m. selection (heap st (unref configInput)) = Some s \<and> mode s = Some m \<and> m \<noteq> ModeNone
         \<longrightarrow> of_kind Selection (attached (onMounted rv configInput st)) =
               [WithSelection (SelectionObject (Some s))])
   \<and> (\<forall>s. selection (heap st (unref configInput)) = Some s
            \<and> (mode s = Some ModeNone \<or> mode s = None)
         \<longrightarrow> of_kind Selection (attached (onMounted rv configInput st)) =
               [WithSelection ModeNoneLiteral])
   \<and> (selection (heap st (unref configInput)) = None
         \<longrightarrow> of_kind Selection (attached (onMounted rv configInput st)) =
               [WithSelection ModeNoneLiteral])"
  by (auto simp add: attached_mounted selection_of_mount_plugins selectionMode_def
      split: option.splits)

theorem selection_always_attached_witness:
  "of_kind Selection (attached (onMounted SrcIndex (Plain 1) (rendered SrcIndex (Plain 1)))) =
     [WithSelection (SelectionObject (Some single_selection))]
   \<and> of_kind Selection (attached (onMounted SrcIndex (Plain 0) (rendered SrcIndex (Plain 0)))) =
     [WithSelection ModeNoneLiteral]"
proof -
  have h1: "containerRef (rendered SrcIndex (Plain 1)) = Some 5"
   and h0: "containerRef (rendered SrcIndex (Plain 0)) = Some 5"
    by (simp_all add: rendered_simps)
  have s1: "selection (heap (rendered SrcIndex (Plain 1)) (unref (Plain 1))) = Some single_selection
            \<and> mode single_selection = Some ModeSingle \<and> ModeSingle \<noteq> ModeNone"
    by (simp add: rendered_simps unref_def example_heap_def grouped_config_def single_selection_def)
  have s0: "selection (heap (rendered SrcIndex (Plain 0)) (unref (Plain 0))) = None"
    by (simp add: rendered_simps unref_def example_heap_def plain_config_def)
  from selection_always_attached [OF h1, of SrcIndex "Plain 1"] s1
  have "of_kind Selection (attached (onMounted SrcIndex (Plain 1) (rendered SrcIndex (Plain 1)))) =
     [WithSelection (SelectionObject (Some single_selection))]"
    by blast
  moreover from selection_always_attached [OF h0, of SrcIndex "Plain 0"] s0
  have "of_kind Selection (attached (onMounted SrcIndex (Plain 0) (rendered SrcIndex (Plain 0)))) =
     [WithSelection ModeNoneLiteral]"
    by blast
  ultimately show ?thesis by simp
qed

text \<open>
  Claim C6. The scrollbar setting is the \<open>scrollbar\<close> field of the \<open>scroll\<close> options
  when the configuration has scroll options and that field is present in them (and is not
  the empty string, which \<open>||\<close> passes over), and the top-level \<open>scrollbar\<close> field
  otherwise. With a container: when the setting is \<open>"none"\<close> the published instance has
  no scrollbar extension; when it is an object the instance has the extension, made from
  that object; when it is another string, or both options are absent, the instance has the
  extension, made from \<open>{}\<close>. In particular, scrollbar options in the scroll options are
  passed on, and \<open>"none"\<close> there attaches nothing, whatever the top-level field holds.
\<close>

theorem scrollbar_resolution:
  "containerRef st = Some c \<Longrightarrow>
   (\<forall>s v. scroll (heap st (unref configInput)) = Some s \<and> scrollbar_override s = Some v
           \<and> v \<noteq> SbString []
        \<longrightarrow> scrollbarConfig (heap st (unref configInput)) = Some v)
   \<and> (scroll (heap st (unref configInput)) = None
        \<longrightarrow> scrollbarConfig (heap st (unref configInput)) = scrollbar (heap st (unref configInput)))
   \<and> (\<forall>s. scroll (heap st (unref configInput)) = Some s
           \<and> (scrollbar_override s = None \<or> scrollbar_override s = Some (SbString []))
        \<longrightarrow> scrollbarConfig (heap st (unref configInput)) = scrollbar (heap st (unref configInput)))
   \<and> (scrollbarConfig (heap st (unref configInput)) = Some (SbString ''none'')
        \<longrightarrow> of_kind Scrollbar (attached (onMounted rv configInput st)) = [])
   \<and> (\<forall>ob. scrollbarConfig (heap st (unref configInput)) = Some (SbObject ob)
        \<longrightarrow> of_kind Scrollbar (attached (onMounted rv configInput st)) = [WithScrollbar ob])
   \<and> (\<forall>s. scrollbarConfig (heap st (unref configInput)) = Some (SbString s) \<and> s \<noteq> ''none''
        \<longrightarrow> of_kind Scrollbar (attached (onMounted rv configInput st)) = [WithScrollbar []])
   \<and> (scrollbarConfig (heap st (unref configInput)) = None
        \<longrightarrow> of_kind Scrollbar (attached (onMounted rv configInput st)) = [WithScrollbar []])
   \<and> (\<forall>s ob. scroll (heap st (unref configInput)) = Some s
            \<and> scrollbar_override s = Some (SbObject ob)
        \<longrightarrow> of_kind Scrollbar (attached (onMounted rv configInput st)) = [WithScrollbar ob])
   \<and> (\<forall>s. scroll (heap st (unref configInput)) = Some s
            \<and> scrollbar_override s = Some (SbString ''none'')
        \<longrightarrow> of_kind Scrollbar (attached (onMounted rv configInput st)) = [])"
  by (auto simp add: attached_mounted scrollbar_of_mount_plugins scrollbarConfig_def js_or_def
      truthy_def scrollbarOptions_def scroll_scrollbar_of_def
      split: option.splits scrollbar_setting.splits)

theorem scrollbar_resolution_witness:
  "of_kind Scrollbar (attached (onMounted SrcIndex (Plain 0) thumb_state)) =
       [WithScrollbar [(''autoHide'', 1)]]
   \<and> scrollbarConfig grouped_config = Some (SbString ''none'')
   \<and> of_kind Scrollbar (attached (onMounted Part002 (Plain 1) (rendered Part002 (Plain 1)))) = []
   \<and> scrollbarConfig plain_config = None
   \<and> of_kind Scrollbar (attached (onMounted Part002 (Plain 0) (rendered Part002 (Plain 0)))) =
       [WithScrollbar []]"
proof -
  have h1: "containerRef (rendered Part002 (Plain 1)) = Some 5"
   and h0: "containerRef (rendered Part002 (Plain 0)) = Some 5"
   and ht: "containerRef thumb_state = Some 5"
    by (simp_all add: rendered_simps thumb_state_def)
  have c1: "heap (rendered Part002 (Plain 1)) (unref (Plain 1)) = grouped_config"
   and c0: "heap (rendered Part002 (Plain 0)) (unref (Plain 0)) = plain_config"
   and ct: "heap thumb_state (unref (Plain 0)) = thumb_config"
    by (simp_all add: rendered_simps unref_def example_heap_def thumb_state_def)
  have r1: "scroll grouped_config =
              Some \<lparr>element = Some Window, scrollbar_override = Some (SbString ''none'')\<rparr>"
    by (simp add: grouped_config_def)
  have r0: "scroll plain_config = None" "scrollbar plain_config = None"
    by (simp_all add: plain_config_def)
  have rt: "scroll thumb_config =
              Some \<lparr>element = None, scrollbar_override = Some (SbObject [(''autoHide'', 1)])\<rparr>"
    by (simp add: thumb_config_def)
  note t1 = scrollbar_resolution [OF h1, of "Plain 1" Part002, unfolded c1]
  note t0 = scrollbar_resolution [OF h0, of "Plain 0" Part002, unfolded c0]
  note tt = scrollbar_resolution [OF ht, of "Plain 0" SrcIndex, unfolded ct]
  from tt rt have e: "of_kind Scrollbar (attached (onMounted SrcIndex (Plain 0) thumb_state)) =
       [WithScrollbar [(''autoHide'', 1)]]"
    by simp
  from t1 r1 have a: "scrollbarConfig grouped_config = Some (SbString ''none'')" by simp
  from t1 a have b: "of_kind Scrollbar (attached (onMounted Part002 (Plain 1) (rendered Part002 (Plain 1)))) = []"
    by blast
  from t0 r0 have c: "scrollbarConfig plain_config = None" by simp
  from t0 c have d: "of_kind Scrollbar (attached (onMounted Part002 (Plain 0) (rendered Part002 (Plain 0)))) =
       [WithScrollbar []]" by blast
  from a b c d e show ?thesis by simp
qed

lemma header_calls_of_mount:
  "filter is_header_call (header_calls rv config @ [Build inst]) = header_calls rv config"
  by (simp add: header_calls_def split: option.splits revision.splits header_height.splits)

text \<open>
  Claim C3, as amended. With a container and a grouping configuration, \<open>part_002\<close>
  attaches the section-grouping extension made from a new object with the group-resolution
  function, the header template, the sticky flag when it is specified, and a header height
  that is a number: a header height that is a function has been called, once and with
  \<open>("", 0)\<close>, and its result is what is passed on. \<open>src/index.ts\<close> attaches the extension
  made from the grouping configuration itself, so a header height that is a function is
  passed on as that function and is not called.
\<close>

theorem sections_by_revision:
  "containerRef st = Some c \<and> groups (heap st (unref configInput)) = Some g \<Longrightarrow>
     of_kind Sections (attached (onMounted Part002 configInput st)) =
       [WithSections (SectionsOptions (getGroupForIndex g)
          (case headerHeight g of HeightFunction f \<Rightarrow> f [] 0 | HeightNumber n \<Rightarrow> n)
          (headerTemplate g) (sticky g))]
   \<and> filter is_header_call (calls st (onMounted Part002 configInput st)) =
       (case headerHeight g of HeightFunction f \<Rightarrow> [HeaderHeightCall [] 0] | HeightNumber n \<Rightarrow> [])
   \<and> of_kind Sections (attached (onMounted SrcIndex configInput st)) =
       [WithSections (GroupsObject g)]
   \<and> filter is_header_call (calls st (onMounted SrcIndex configInput st)) = []"
  by (auto simp add: attached_mounted sections_of_mount_plugins sections_options_def
      calls_mounted header_calls_of_mount header_calls_def split: header_height.splits)

theorem sections_by_revision_witness:
  "of_kind Sections (attached (onMounted Part002 (Plain 1) (rendered Part002 (Plain 1)))) =
       [WithSections (SectionsOptions 7 32 8 (Some True))]
   \<and> filter is_header_call
        (calls (rendered Part002 (Plain 1)) (onMounted Part002 (Plain 1) (rendered Part002 (Plain 1)))) =
       [HeaderHeightCall [] 0]"
proof -
  have h: "containerRef (rendered Part002 (Plain 1)) = Some 5
           \<and> groups (heap (rendered Part002 (Plain 1)) (unref (Plain 1))) = Some letter_groups"
    by (simp add: rendered_simps unref_def example_heap_def grouped_config_def)
  from sections_by_revision [OF h]
  show ?thesis by (simp add: letter_groups_def header_by_index_def)
qed

text \<open>
  The claim as it was stated fails on \<open>src/index.ts\<close>: for the grouped configuration of
  the examples, whose header height is a function, the extension is made from the grouping
  configuration and not from an object with the height resolved, and the function is
  never called.
\<close>

theorem sections_forwarded_unresolved:
  "headerHeight letter_groups = HeightFunction header_by_index
   \<and> of_kind Sections (attached (onMounted SrcIndex (Plain 1) (rendered SrcIndex (Plain 1)))) =
       [WithSections (GroupsObject letter_groups)]
   \<and> of_kind Sections (attached (onMounted SrcIndex (Plain 1) (rendered SrcIndex (Plain 1)))) \<noteq>
       [WithSections (SectionsOptions 7 (header_by_index [] 0) 8 (Some True))]
   \<and> filter is_header_call
        (calls (rendered SrcIndex (Plain 1)) (onMounted SrcIndex (Plain 1) (rendered SrcIndex (Plain 1)))) = []"
proof -
  have h: "containerRef (rendered SrcIndex (Plain 1)) = Some 5"
    by (simp add: rendered_simps)
  have g: "heap (rendered SrcIndex (Plain 1)) (unref (Plain 1)) = grouped_config"
    by (simp add: rendered_simps unref_def example_heap_def)
  have a: "of_kind Sections (attached (onMounted SrcIndex (Plain 1) (rendered SrcIndex (Plain 1)))) =
       [WithSections (GroupsObject letter_groups)]"
    unfolding attached_mounted [OF h] g
    by (simp add: sections_of_mount_plugins sections_options_def grouped_config_def)
  have b: "filter is_header_call
        (calls (rendered SrcIndex (Plain 1)) (onMounted SrcIndex (Plain 1) (rendered SrcIndex (Plain 1)))) = []"
    unfolding calls_mounted [OF h] g
    by (simp add: header_calls_def grouped_config_def)
  have c: "headerHeight letter_groups = HeightFunction header_by_index"
    by (simp add: letter_groups_def)
  show ?thesis unfolding a b c by simp
qed

section \<open>Item sync\<close>

lemma watchers_useVList:
  "watchers (useVList rv ci st) = watchers st @ (if isRef ci then [ItemsWatcher ci] else [])"
  by (simp add: useVList_def Let_def)

lemma items_watch_cb_eq:
  "items_watch_cb newItems st =
     Inr (st\<lparr>effects := effects st @
            (case instanceRef st of
               None \<Rightarrow> []
             | Some inst \<Rightarrow> (case newItems of None \<Rightarrow> [] | Some xs \<Rightarrow> [SetItems (vid inst) xs]))\<rparr>)"
  by (simp add: items_watch_cb_def member_call_def setItems_def split: option.splits)

text \<open>
  Claim C4, as amended. The reaction to a change of the \<open>items\<close> field never raises. It
  calls \<open>setItems\<close> once, with the new collection, when an instance is published and the
  new value is defined, whether the collection has elements or not; it makes no call when
  the new value is undefined or no instance is published. \<open>useVList\<close> installs the watch
  when the configuration is a reactive cell and installs nothing when it is a plain
  object, so on a component with that one watch a change of the items makes exactly the
  call above, and on a component with no watch it makes none.
\<close>

theorem items_sync:
  "\<not> raised (items_watch_cb newItems st)
   \<and> calls st (items_watch_cb newItems st) =
       (case instanceRef st of
          None \<Rightarrow> []
        | Some inst \<Rightarrow> (case newItems of None \<Rightarrow> [] | Some xs \<Rightarrow> [SetItems (vid inst) xs]))
   \<and> watchers (useVList rv (Reactive a) st) = watchers st @ [ItemsWatcher (Reactive a)]
   \<and> watchers (useVList rv (Plain a) st) = watchers st
   \<and> (watchers st = [ItemsWatcher src] \<longrightarrow>
        calls st (items_changed src newItems st) =
          (case instanceRef st of
             None \<Rightarrow> []
           | Some inst \<Rightarrow> (case newItems of None \<Rightarrow> [] | Some xs \<Rightarrow> [SetItems (vid inst) xs])))
   \<and> (watchers st = [] \<longrightarrow> items_changed src newItems st =
         Inr (st\<lparr>heap := (heap st)(unref src := (heap st (unref src))\<lparr>items := newItems\<rparr>)\<rparr>))"
  by (simp add: items_watch_cb_eq raised_def calls_def watchers_useVList isRef_def
      items_changed_def Let_def)

theorem items_sync_witness:
  "calls (live Part002 (Reactive 0)) (items_changed (Reactive 0) (Some [4, 5]) (live Part002 (Reactive 0))) =
     [SetItems 0 [4, 5]]
   \<and> calls (live Part002 (Reactive 0)) (items_changed (Reactive 0) None (live Part002 (Reactive 0))) = []
   \<and> watchers (live Part002 (Plain 0)) = []"
proof -
  have w: "watchers (live Part002 (Reactive 0)) = [ItemsWatcher (Reactive 0)]"
    by (simp add: live_simps isRef_def)
  note t = items_sync [of _ "live Part002 (Reactive 0)" Part002 0 "Reactive 0"]
  from t [of "Some [4, 5]"] w
  have a: "calls (live Part002 (Reactive 0)) (items_changed (Reactive 0) (Some [4, 5]) (live Part002 (Reactive 0))) =
     [SetItems 0 [4, 5]]"
    by (simp add: live_simps)
  from t [of None] w
  have b: "calls (live Part002 (Reactive 0)) (items_changed (Reactive 0) None (live Part002 (Reactive 0))) = []"
    by (simp add: live_simps)
  have c: "watchers (live Part002 (Plain 0)) = []"
    by (simp add: live_simps isRef_def)
  from a b c show ?thesis by simp
qed

text \<open>
  The claim as it was stated fails for an empty collection: on the mounted component of
  the examples, replacing the items with \<open>[]\<close> calls \<open>setItems\<close> with \<open>[]\<close>, since an
  empty array is truthy.
\<close>

theorem empty_items_are_forwarded:
  "calls (live Part002 (Reactive 0)) (items_changed (Reactive 0) (Some []) (live Part002 (Reactive 0))) =
     [SetItems 0 []]"
  by (simp add: items_changed_def Let_def live_simps isRef_def items_watch_cb_eq calls_def)

section \<open>Event subscription\<close>

lemma event_watch_cb_eq:
  "event_watch_cb in_component event href inst st =
     Inr (case inst of
            None \<Rightarrow> st
          | Some i \<Rightarrow> st\<lparr>effects := effects st @ [On (vid i) event href],
                          unmount_hooks := unmount_hooks st @
                            (if in_component then [UnsubHook (vid i) event href] else [])\<rparr>)"
  by (simp add: event_watch_cb_def member_call_def on_def register_unmount_def
      split: option.splits)

lemma run_instance_watchers_eq:
  "run_instance_watchers ws st =
     Inr (map (seen_now (map_option vid (instanceRef st))) ws,
          st\<lparr>effects := effects st @ flushed_ons (map_option vid (instanceRef st)) ws\<rparr>)"
proof (induction ws arbitrary: st)
  case Nil
  then show ?case by simp
next
  case (Cons w ws)
  show ?case
  proof (cases w)
    case (ItemsWatcher ci)
    then show ?thesis by (simp add: Cons.IH)
  next
    case (InstanceWatcher event href seen)
    then show ?thesis
      by (cases "instanceRef st") (auto simp add: Cons.IH event_watch_cb_eq)
  qed
qed

lemma flush_eq:
  "flush st =
     Inr (st\<lparr>effects := effects st @ flushed_ons (map_option vid (instanceRef st)) (watchers st),
            watchers := map (seen_now (map_option vid (instanceRef st))) (watchers st)\<rparr>)"
  by (simp add: flush_def run_instance_watchers_eq)

lemma flushed_ons_append:
  "flushed_ons cur (ws @ ws') = flushed_ons cur ws @ flushed_ons cur ws'"
  by (induction cur ws rule: flushed_ons.induct) simp_all

lemma flushed_ons_seen_now: "flushed_ons cur (map (seen_now cur) ws) = []"
  by (induction cur ws rule: flushed_ons.induct) (simp_all split: option.splits)

lemma flushed_ons_None: "flushed_ons None ws = []"
  by (induction ws) (simp_all, case_tac a, simp_all)

lemma useVListEvent_eq:
  "useVListEvent event handler st =
     Inr (st\<lparr>handler_cells := (handler_cells st)(next_cell st := handler),
            next_cell := Suc (next_cell st),
            watchers := watchers st @
              [InstanceWatcher event (next_cell st) (map_option vid (instanceRef st))],
            effects := effects st @
              (case instanceRef st of None \<Rightarrow> [] | Some i \<Rightarrow> [On (vid i) event (next_cell st)]),
            unmount_hooks := unmount_hooks st @
              (case instanceRef st of None \<Rightarrow> [] | Some i \<Rightarrow> [UnsubHook (vid i) event (next_cell st)])\<rparr>)"
  by (simp add: useVListEvent_def Let_def event_watch_cb_eq split: option.splits)

lemma instance_changed_eq:
  "instance_changed v st =
     Inr (st\<lparr>instanceRef := v,
            effects := effects st @ flushed_ons (map_option vid v) (watchers st),
            watchers := map (seen_now (map_option vid v)) (watchers st)\<rparr>)"
  by (simp add: instance_changed_def flush_eq)

lemma on_of_unseen:
  "seen \<noteq> Some v \<Longrightarrow>
   On v event href \<in> set (flushed_ons (Some v) (ws @ [InstanceWatcher event href seen]))"
  by (simp add: flushed_ons_append)

lemma header_calls_not_on: "filter is_on (header_calls rv config) = []"
  by (simp add: header_calls_def split: option.splits revision.splits header_height.splits)

text \<open>
  Claim C7. \<open>useVListEvent\<close> never raises, and its watch reacts at registration: when the
  reference holds an instance, the wrapped handler is registered on that instance for the
  event before \<open>useVListEvent\<close> returns; when the reference is empty, nothing is
  registered then. In both cases the watch stays installed, and the caller does nothing
  more. When the host later assigns to the reference an instance the watch has not seen,
  the flush registers the wrapped handler on it. When the reference was empty at
  registration and the mount callback then publishes the instance it built, the callback
  itself registers nothing, the flush that follows registers the wrapped handler on the
  published instance (and, when this is the only watch, nothing else), and a further
  flush registers nothing. The wrapped handler calls whatever the handler cell holds when
  it is invoked: the handler given at first, and another one once the cell has been
  assigned. The last part says the same of a component on which \<open>useVList\<close> and then
  \<open>useVListEvent\<close> have run: after the mount signal and the flush, the one instance built
  has the one listener.
\<close>

theorem event_subscription:
  "\<not> raised (useVListEvent event handler st)
   \<and> (\<forall>i. instanceRef st = Some i \<longrightarrow>
         calls st (useVListEvent event handler st) = [On (vid i) event (next_cell st)])
   \<and> (instanceRef st = None \<longrightarrow> calls st (useVListEvent event handler st) = [])
   \<and> (\<forall>st1. useVListEvent event handler st = Inr st1 \<longrightarrow>
         watchers st1 =
           watchers st @ [InstanceWatcher event (next_cell st) (map_option vid (instanceRef st))]
       \<and> handler_cells st1 (next_cell st) = handler
       \<and> \<not> raised (instance_changed (Some inst) st1)
       \<and> (map_option vid (instanceRef st) \<noteq> Some (vid inst) \<longrightarrow>
            On (vid inst) event (next_cell st) \<in> set (calls st1 (instance_changed (Some inst) st1)))
       \<and> (watchers st = [] \<and> map_option vid (instanceRef st) \<noteq> Some (vid inst) \<longrightarrow>
            calls st1 (instance_changed (Some inst) st1) = [On (vid inst) event (next_cell st)])
       \<and> calls st1 (instance_changed None st1) = []
       \<and> (\<forall>c st2. instanceRef st = None \<and> containerRef st1 = Some c
                  \<and> onMounted rv configInput st1 = Inr st2 \<longrightarrow>
            (\<exists>i. instanceRef st2 = Some i
               \<and> filter is_on (calls st1 (Inr st2)) = []
               \<and> \<not> raised (flush st2)
               \<and> published (flush st2) = Some i
               \<and> On (vid i) event (next_cell st) \<in> set (calls st2 (flush st2))
               \<and> (watchers st = [] \<longrightarrow> calls st2 (flush st2) = [On (vid i) event (next_cell st)])
               \<and> (\<forall>st3. flush st2 = Inr st3 \<longrightarrow> calls st3 (flush st3) = [])))
       \<and> calls st1 (Inr (wrappedHandler (next_cell st) p st1)) = [HandlerCall handler p]
       \<and> calls st1 (Inr (wrappedHandler (next_cell st) p
                           (st1\<lparr>handler_cells := (handler_cells st1)(next_cell st := h2)\<rparr>))) =
            [HandlerCall h2 p])
   \<and> (\<exists>st1 st2 st3 i.
         useVListEvent event handler (useVList rv configInput (fresh h n)) = Inr st1
       \<and> mount_signal (st1\<lparr>containerRef := Some el\<rparr>) = Inr st2
       \<and> instanceRef st2 = Some i
       \<and> filter is_on (effects st2) = []
       \<and> flush st2 = Inr st3
       \<and> instanceRef st3 = Some i
       \<and> filter is_build (effects st3) = [Build i]
       \<and> filter is_on (effects st3) = [On (vid i) event 0])"
proof (intro conjI allI impI)
  fix st1 c st2
  assume u: "useVListEvent event handler st = Inr st1"
    and m: "instanceRef st = None \<and> containerRef st1 = Some c \<and> onMounted rv configInput st1 = Inr st2"
  from m have n: "instanceRef st = None" and c: "containerRef st1 = Some c"
    and o: "onMounted rv configInput st1 = Inr st2" by simp_all
  from u n have w: "watchers st1 = watchers st @ [InstanceWatcher event (next_cell st) None]"
    by (auto simp add: useVListEvent_eq)
  from o have st2: "st2 = st1\<lparr>heap := (heap st1)(next_addr st1 := (heap st1 (unref configInput))\<lparr>container := Some c\<rparr>),
            next_addr := Suc (next_addr st1),
            effects := effects st1 @ header_calls rv (heap st1 (unref configInput))
                         @ [Build (mounted rv configInput st1)],
            next_vid := Suc (next_vid st1),
            instanceRef := Some (mounted rv configInput st1)\<rparr>"
    by (simp add: onMounted_Some [OF c])
  show "\<exists>i. instanceRef st2 = Some i
               \<and> filter is_on (calls st1 (Inr st2)) = []
               \<and> \<not> raised (flush st2)
               \<and> published (flush st2) = Some i
               \<and> On (vid i) event (next_cell st) \<in> set (calls st2 (flush st2))
               \<and> (watchers st = [] \<longrightarrow> calls st2 (flush st2) = [On (vid i) event (next_cell st)])
               \<and> (\<forall>st3. flush st2 = Inr st3 \<longrightarrow> calls st3 (flush st3) = [])"
    by (auto simp add: st2 w calls_def raised_def published_def flush_eq flushed_ons_append
        flushed_ons_seen_now header_calls_not_on)
next
  let ?s0 = "useVList rv configInput (fresh h n)"
  have nc: "next_cell ?s0 = 0"
    by (simp add: useVList_def fresh_def Let_def)
  obtain st1 where u: "useVListEvent event handler ?s0 = Inr st1"
    by (simp add: useVListEvent_eq)
  from u have w1: "watchers st1 = watchers ?s0 @ [InstanceWatcher event 0 None]"
    and e1: "effects st1 = []"
    and mh: "mounted_hooks st1 = [MountedHook rv configInput]"
    by (auto simp add: useVListEvent_eq useVList_fresh_simps nc)
  let ?s1 = "st1\<lparr>containerRef := Some el\<rparr>"
  have c: "containerRef ?s1 = Some el" by simp
  have ms: "mount_signal ?s1 = onMounted rv configInput ?s1"
    by (simp add: mount_signal_def mh run_hook_def split: sum.splits)
  obtain st2 where o: "onMounted rv configInput ?s1 = Inr st2"
    by (simp add: onMounted_Some [OF c])
  from o have i2: "instanceRef st2 = Some (mounted rv configInput ?s1)"
    and e2: "effects st2 = header_calls rv (heap ?s1 (unref configInput))
                             @ [Build (mounted rv configInput ?s1)]"
    and w2: "watchers st2 = watchers ?s0 @ [InstanceWatcher event 0 None]"
    by (auto simp add: onMounted_Some [OF c] e1 w1)
  have f: "flushed_ons (Some v) (watchers ?s0) = []" for v
    by (simp add: useVList_fresh_simps)
  obtain st3 where fl: "flush st2 = Inr st3"
    by (simp add: flush_eq)
  from fl have i3: "instanceRef st3 = Some (mounted rv configInput ?s1)"
    and e3: "filter is_on (effects st3) = [On (vid (mounted rv configInput ?s1)) event 0]"
    by (auto simp add: flush_eq i2 e2 w2 flushed_ons_append f header_calls_not_on)
  have e2': "filter is_on (effects st2) = []"
    by (simp add: e2 header_calls_not_on)
  have nb: "filter is_build (flushed_ons cur ws) = []" for cur ws
    by (induction cur ws rule: flushed_ons.induct) (simp_all split: option.splits)
  from fl have b3: "filter is_build (effects st3) = [Build (mounted rv configInput ?s1)]"
    by (auto simp add: flush_eq e2 header_calls_not_build nb)
  from u ms o i2 e2' fl i3 e3 b3
  show "\<exists>st1 st2 st3 i.
         useVListEvent event handler ?s0 = Inr st1
       \<and> mount_signal (st1\<lparr>containerRef := Some el\<rparr>) = Inr st2
       \<and> instanceRef st2 = Some i
       \<and> filter is_on (effects st2) = []
       \<and> flush st2 = Inr st3
       \<and> instanceRef st3 = Some i
       \<and> filter is_build (effects st3) = [Build i]
       \<and> filter is_on (effects st3) = [On (vid i) event 0]"
    by auto
qed (auto simp add: useVListEvent_eq raised_def calls_def instance_changed_eq
      flushed_ons_append flushed_ons_None wrappedHandler_def)

theorem event_subscription_witness:
  "calls (live Part002 (Plain 0)) (useVListEvent ''selection:change'' 9 (live Part002 (Plain 0))) =
     [On 0 ''selection:change'' 0]
   \<and> calls (set_up Part002 (Plain 0)) (useVListEvent ''selection:change'' 9 (set_up Part002 (Plain 0))) = []
   \<and> (\<exists>st1 st2 st3 i.
         useVListEvent ''selection:change'' 9 (set_up Part002 (Plain 0)) = Inr st1
       \<and> mount_signal (st1\<lparr>containerRef := Some 5\<rparr>) = Inr st2
       \<and> instanceRef st2 = Some i
       \<and> filter is_on (effects st2) = []
       \<and> flush st2 = Inr st3
       \<and> instanceRef st3 = Some i
       \<and> filter is_build (effects st3) = [Build i]
       \<and> filter is_on (effects st3) = [On (vid i) ''selection:change'' 0])"
proof -
  have i: "instanceRef (live Part002 (Plain 0)) = Some (mounted Part002 (Plain 0) (rendered Part002 (Plain 0)))"
    by (simp add: live_simps)
  have n: "instanceRef (set_up Part002 (Plain 0)) = None"
    by (simp add: set_up_simps)
  from event_subscription [of "''selection:change''" 9 "live Part002 (Plain 0)"] i
  have a: "calls (live Part002 (Plain 0)) (useVListEvent ''selection:change'' 9 (live Part002 (Plain 0))) =
     [On 0 ''selection:change'' 0]"
    by (simp add: live_simps next_cell_simps)
  from event_subscription [of "''selection:change''" 9 "set_up Part002 (Plain 0)"] n
  have b: "calls (set_up Part002 (Plain 0)) (useVListEvent ''selection:change'' 9 (set_up Part002 (Plain 0))) = []"
    by simp
  from event_subscription [where event = "''selection:change''" and handler = 9
      and rv = Part002 and configInput = "Plain 0" and h = example_heap and n = 2 and el = 5]
  have c: "\<exists>st1 st2 st3 i.
         useVListEvent ''selection:change'' 9 (set_up Part002 (Plain 0)) = Inr st1
       \<and> mount_signal (st1\<lparr>containerRef := Some 5\<rparr>) = Inr st2
       \<and> instanceRef st2 = Some i
       \<and> filter is_on (effects st2) = []
       \<and> flush st2 = Inr st3
       \<and> instanceRef st3 = Some i
       \<and> filter is_build (effects st3) = [Build i]
       \<and> filter is_on (effects st3) = [On (vid i) ''selection:change'' 0]"
    unfolding set_up_def by blast
  from a b c show ?thesis by blast
qed

end
